theory Spec2Isabelle
  imports Complex_Main "HOL-Library.Sublist"
begin

section \<open>The scoring and tie-break engine of the quiz\<close>

text \<open>
  The repository holds the scoring engine twice: in \<^verbatim>\<open>src/app/QuizClient.jsx\<close>
  (functions \<^verbatim>\<open>norm\<close>, \<^verbatim>\<open>buildOptionLabelIndex\<close>, \<^verbatim>\<open>scoreAnswers\<close>,
  \<^verbatim>\<open>pickWinner\<close>) and in \<^verbatim>\<open>QuizResults.jsx\<close> (functions
  \<^verbatim>\<open>normaliseAnswersByTitle\<close>, \<^verbatim>\<open>scoreAnswers\<close>, \<^verbatim>\<open>pickWinner\<close>). Functions
  that exist in both files are embedded once per file, with the file's name as
  prefix, each translated from its own source text.
\<close>

subsection \<open>JavaScript data\<close>

text \<open>
  A JavaScript string is a sequence of UTF-16 code units; a code unit is a
  natural number here, so that the curly quotes and the Unicode white space that
  \<^verbatim>\<open>norm\<close> tests for can be written down. \<open>js\<close> turns an ASCII literal of the
  source into such a string.
\<close>

type_synonym jsstring = "nat list"

definition js :: "string \<Rightarrow> jsstring" where
  "js s = map of_char s"

text \<open>
  A JavaScript number is a finite value or one of the three non-finite doubles.
  Finite values are kept exact (rounding of doubles is outside the model).
\<close>

datatype jsnum = Finite real | NaN | PosInf | NegInf

text \<open>The comparisons \<^verbatim>\<open>a > b\<close>, \<^verbatim>\<open>a <= b\<close>, \<^verbatim>\<open>a >= b\<close> and \<^verbatim>\<open>a === b\<close> on numbers;
  every comparison with \<^verbatim>\<open>NaN\<close> is false.\<close>

fun num_gt :: "jsnum \<Rightarrow> jsnum \<Rightarrow> bool" where
  "num_gt NaN _ = False"
| "num_gt _ NaN = False"
| "num_gt (Finite a) (Finite b) = (a > b)"
| "num_gt (Finite a) NegInf = True"
| "num_gt (Finite a) PosInf = False"
| "num_gt PosInf PosInf = False"
| "num_gt PosInf _ = True"
| "num_gt NegInf _ = False"

fun num_eq :: "jsnum \<Rightarrow> jsnum \<Rightarrow> bool" where
  "num_eq NaN _ = False"
| "num_eq _ NaN = False"
| "num_eq a b = (a = b)"

definition num_le :: "jsnum \<Rightarrow> jsnum \<Rightarrow> bool" where
  "num_le a b = (num_gt b a \<or> num_eq a b)"

definition num_ge :: "jsnum \<Rightarrow> jsnum \<Rightarrow> bool" where
  "num_ge a b = (num_gt a b \<or> num_eq a b)"

text \<open>\<^verbatim>\<open>Number.isFinite(n)\<close>.\<close>

fun isFinite :: "jsnum \<Rightarrow> bool" where
  "isFinite (Finite _) = True"
| "isFinite _ = False"

text \<open>
  The value stored under a key of the answer set: a single string (an option id
  or label), a sequence of strings (multi-choice), a number (slider), or
  \<^verbatim>\<open>null\<close>/\<^verbatim>\<open>undefined\<close> stored explicitly. A key that is missing is \<open>None\<close>
  in the map. The code only ever tests such a value with \<^verbatim>\<open>== null\<close>,
  \<^verbatim>\<open>Array.isArray\<close> and \<^verbatim>\<open>typeof\<close>.
\<close>

datatype answer = ANull | Single jsstring | Multi "jsstring list" | Slider jsnum

type_synonym answers = "jsstring \<rightharpoonup> answer"

text \<open>\<^verbatim>\<open>x == null\<close> for the result of a property read.\<close>

definition nullish :: "answer option \<Rightarrow> bool" where
  "nullish v = (v = None \<or> v = Some ANull)"

text \<open>
  The weight table as parsed from JSON: an object from question title to an
  object from option label to an array of product codes. Both objects are
  association lists in the order in which \<^verbatim>\<open>Object.keys\<close> enumerates them;
  \<open>map_of\<close> is the property read.

  An object is modelled by its own properties. What a property read finds on
  \<^verbatim>\<open>Object.prototype\<close> (for a key such as \<^verbatim>\<open>"constructor"\<close>) is outside the model:
  keys are taken not to be names of inherited properties.
\<close>

type_synonym option_weights = "(jsstring \<times> jsstring list) list"
type_synonym weights = "(jsstring \<times> option_weights) list"

text \<open>A tally object: product code to count. A missing key is \<open>None\<close>.\<close>

type_synonym tally = "jsstring \<rightharpoonup> nat"

text \<open>What a function returns where the source returns a string, \<^verbatim>\<open>null\<close> or
  \<^verbatim>\<open>undefined\<close>; and the one exception that the code can raise on data of
  these shapes.\<close>

datatype jsresult = Str jsstring | JNull | JUndefined

datatype error = TypeError

subsection \<open>Constants of both files\<close>

definition QuizClient_PRODUCT_ORDER :: "jsstring list" where
  "QuizClient_PRODUCT_ORDER =
     map js [''Eic'', ''Epi'', ''Meca'', ''Ecp'', ''Cpe'', ''hcb'', ''Hpes'', ''Rnp'',
             ''Bmca'', ''Mjb'', ''Spe'', ''Shp'', ''Gsi'']"

definition QuizClient_PRIORITIES_TITLE :: jsstring where
  "QuizClient_PRIORITIES_TITLE =
     js ''Which of the below are your top two priorities in the upcoming months?''"

definition QuizResults_PRODUCT_ORDER :: "jsstring list" where
  "QuizResults_PRODUCT_ORDER =
     map js [''Eic'', ''Epi'', ''Meca'', ''Ecp'', ''Cpe'', ''hcb'', ''Hpes'', ''Rnp'',
             ''Bmca'', ''Mjb'', ''Spe'', ''Shp'', ''Gsi'']"

definition QuizResults_PRIORITIES_TITLE :: jsstring where
  "QuizResults_PRIORITIES_TITLE =
     js ''Which of the below are your top two priorities in the upcoming months?''"

subsection \<open>Array helpers\<close>

text \<open>\<^verbatim>\<open>xs.indexOf(x)\<close>: the first index of \<open>x\<close>, or \<open>-1\<close>.\<close>

fun indexOf :: "'a list \<Rightarrow> 'a \<Rightarrow> int" where
  "indexOf [] x = -1"
| "indexOf (y # ys) x =
     (if y = x then 0 else (let i = indexOf ys x in if i < 0 then -1 else i + 1))"

text \<open>\<^verbatim>\<open>xs[0]\<close> where the element is a string: \<^verbatim>\<open>undefined\<close> on the empty array.\<close>

fun first_elem :: "jsstring list \<Rightarrow> jsresult" where
  "first_elem [] = JUndefined"
| "first_elem (x # _) = Str x"

text \<open>Truthiness of such a value: \<^verbatim>\<open>undefined\<close>, \<^verbatim>\<open>null\<close> and the empty string
  are falsy.\<close>

fun truthy :: "jsresult \<Rightarrow> bool" where
  "truthy (Str s) = (s \<noteq> [])"
| "truthy _ = False"

subsection \<open>\<^verbatim>\<open>pickWinner\<close> of QuizClient.jsx\<close>

text \<open>
  The body of the \<^verbatim>\<open>forEach\<close> over the product order. \<^verbatim>\<open>tallies?.[code] || 0\<close>
  is 0 when the tallies are \<^verbatim>\<open>null\<close>, when the key is missing and when the
  count is 0.
\<close>

definition QuizClient_tally_value :: "tally option \<Rightarrow> jsstring \<Rightarrow> jsnum" where
  "QuizClient_tally_value tallies code =
     (case tallies of
        None \<Rightarrow> Finite 0
      | Some t \<Rightarrow> (case t code of None \<Rightarrow> Finite 0 | Some n \<Rightarrow> Finite (real n)))"

definition QuizClient_scan ::
  "tally option \<Rightarrow> jsnum \<times> jsstring list \<Rightarrow> jsstring \<Rightarrow> jsnum \<times> jsstring list" where
  "QuizClient_scan tallies st code =
     (let v = QuizClient_tally_value tallies code in
      if num_gt v (fst st) then (v, [code])
      else if num_eq v (fst st) then (fst st, snd st @ [code])
      else st)"

definition QuizClient_leaders :: "jsstring list \<Rightarrow> tally option \<Rightarrow> jsstring list" where
  "QuizClient_leaders order tallies = snd (foldl (QuizClient_scan tallies) (NegInf, []) order)"

text \<open>The loop over the priorities answer: the first selected option whose first
  mapped code is truthy and among the leaders returns that code.\<close>

fun QuizClient_priority ::
  "option_weights \<Rightarrow> jsstring list \<Rightarrow> jsstring list \<Rightarrow> jsstring option" where
  "QuizClient_priority priMap leaders [] = None"
| "QuizClient_priority priMap leaders (opt # opts) =
     (let match = first_elem (case map_of priMap opt of None \<Rightarrow> [] | Some codes \<Rightarrow> codes) in
      case match of
        Str m \<Rightarrow> if m \<noteq> [] \<and> m \<in> set leaders then Some m
                 else QuizClient_priority priMap leaders opts
      | _ \<Rightarrow> QuizClient_priority priMap leaders opts)"

text \<open>
  \<^verbatim>\<open>pickWinner\<close> with the local \<^verbatim>\<open>order\<close> as a parameter; the source binds it to
  \<^verbatim>\<open>PRODUCT_ORDER\<close>. \<^verbatim>\<open>leaders.sort(...)\<close> is a stable sort on the index in
  \<^verbatim>\<open>order\<close>.
\<close>

definition QuizClient_pickWinner_on ::
  "jsstring list \<Rightarrow> tally option \<Rightarrow> answers option \<Rightarrow> weights option \<Rightarrow> jsresult" where
  "QuizClient_pickWinner_on order tallies answers weightsMap =
     (if order = [] then JNull
      else
        let leaders = QuizClient_leaders order tallies in
        if leaders = [] then JNull
        else if length leaders = 1 then first_elem leaders
        else
          let priMap = (case weightsMap of None \<Rightarrow> None
                        | Some w \<Rightarrow> map_of w QuizClient_PRIORITIES_TITLE);
              priAns = (case answers of None \<Rightarrow> None
                        | Some a \<Rightarrow> a QuizClient_PRIORITIES_TITLE);
              hit = (case (priMap, priAns) of
                       (Some pm, Some (Multi opts)) \<Rightarrow> QuizClient_priority pm leaders opts
                     | _ \<Rightarrow> None)
          in case hit of
               Some m \<Rightarrow> Str m
             | None \<Rightarrow>
                 (let r = first_elem (sort_key (indexOf order) leaders)
                  in if truthy r then r else JNull))"

definition QuizClient_pickWinner ::
  "tally option \<Rightarrow> answers option \<Rightarrow> weights option \<Rightarrow> jsresult" where
  "QuizClient_pickWinner = QuizClient_pickWinner_on QuizClient_PRODUCT_ORDER"

subsection \<open>\<^verbatim>\<open>pickWinner\<close> of QuizResults.jsx\<close>

text \<open>\<^verbatim>\<open>tallies[code] || 0\<close> on a tallies object.\<close>

definition QuizResults_tally_value :: "tally \<Rightarrow> jsstring \<Rightarrow> jsnum" where
  "QuizResults_tally_value t code =
     (case t code of None \<Rightarrow> Finite 0 | Some n \<Rightarrow> if n = 0 then Finite 0 else Finite (real n))"

definition QuizResults_scan ::
  "tally \<Rightarrow> jsnum \<times> jsstring list \<Rightarrow> jsstring \<Rightarrow> jsnum \<times> jsstring list" where
  "QuizResults_scan t st code =
     (let v = QuizResults_tally_value t code in
      if num_gt v (fst st) then (v, [code])
      else if num_eq v (fst st) then (fst st, snd st @ [code])
      else st)"

definition QuizResults_leaders :: "jsstring list \<Rightarrow> tally \<Rightarrow> jsstring list" where
  "QuizResults_leaders order t = snd (foldl (QuizResults_scan t) (NegInf, []) order)"

fun QuizResults_priority ::
  "option_weights \<Rightarrow> jsstring list \<Rightarrow> jsstring list \<Rightarrow> jsstring option" where
  "QuizResults_priority priMap leaders [] = None"
| "QuizResults_priority priMap leaders (opt # opts) =
     (let codes = (case map_of priMap opt of None \<Rightarrow> [] | Some cs \<Rightarrow> cs);
          match = first_elem codes
      in case match of
        Str m \<Rightarrow> if m \<noteq> [] \<and> m \<in> set leaders then Some m
                 else QuizResults_priority priMap leaders opts
      | _ \<Rightarrow> QuizResults_priority priMap leaders opts)"

text \<open>
  \<^verbatim>\<open>pickWinner\<close> with \<^verbatim>\<open>PRODUCT_ORDER\<close> as a parameter. There is no optional
  chaining on \<^verbatim>\<open>tallies\<close>: when the tallies are \<^verbatim>\<open>null\<close> or \<^verbatim>\<open>undefined\<close>, the
  first iteration of the \<^verbatim>\<open>forEach\<close> raises a \<^verbatim>\<open>TypeError\<close>. The result of the
  final sort is returned as it is, \<^verbatim>\<open>undefined\<close> when there is no leader.
\<close>

definition QuizResults_pickWinner_on ::
  "jsstring list \<Rightarrow> tally option \<Rightarrow> answers option \<Rightarrow> weights option \<Rightarrow> error + jsresult" where
  "QuizResults_pickWinner_on order tallies answersByTitle weightsMap =
     (case tallies of
        None \<Rightarrow> (if order \<noteq> [] then Inl TypeError else Inr JUndefined)
      | Some t \<Rightarrow>
          let leaders = QuizResults_leaders order t in
          if length leaders = 1 then Inr (first_elem leaders)
          else
            let priMap = (case weightsMap of None \<Rightarrow> None
                          | Some w \<Rightarrow> map_of w QuizResults_PRIORITIES_TITLE);
                priAns = (case answersByTitle of None \<Rightarrow> None
                          | Some a \<Rightarrow> a QuizResults_PRIORITIES_TITLE);
                hit = (case (priMap, priAns) of
                         (Some pm, Some (Multi opts)) \<Rightarrow> QuizResults_priority pm leaders opts
                       | _ \<Rightarrow> None)
            in (case hit of
                  Some m \<Rightarrow> Inr (Str m)
                | None \<Rightarrow> Inr (first_elem (sort_key (indexOf order) leaders))))"

definition QuizResults_pickWinner ::
  "tally option \<Rightarrow> answers option \<Rightarrow> weights option \<Rightarrow> error + jsresult" where
  "QuizResults_pickWinner = QuizResults_pickWinner_on QuizResults_PRODUCT_ORDER"

subsection \<open>\<^verbatim>\<open>normaliseAnswersByTitle\<close> of QuizResults.jsx\<close>

text \<open>
  An option of a question carries any of the fields \<^verbatim>\<open>id\<close>, \<^verbatim>\<open>value\<close>,
  \<^verbatim>\<open>label\<close>, \<^verbatim>\<open>name\<close>; a question carries \<^verbatim>\<open>id\<close>, \<^verbatim>\<open>title\<close> and its options
  (\<^verbatim>\<open>answers\<close>). A field that is missing, \<^verbatim>\<open>null\<close> or \<^verbatim>\<open>undefined\<close> is \<open>None\<close>.
\<close>

record qoption =
  opt_id :: "jsstring option"
  opt_value :: "jsstring option"
  opt_label :: "jsstring option"
  opt_name :: "jsstring option"

record question =
  q_id :: "jsstring option"
  q_title :: "jsstring option"
  q_answers :: "qoption list"

text \<open>The body of the loop: skip a question whose id or title is falsy; copy the
  id-key's value to the title-key when the first is not \<^verbatim>\<open>null\<close> and the second
  is.\<close>

definition mirror :: "answers \<Rightarrow> question \<Rightarrow> answers" where
  "mirror out q =
     (case (q_id q, q_title q) of
        (Some qid, Some title) \<Rightarrow>
          if qid = [] \<or> title = [] then out
          else if \<not> nullish (out qid) \<and> nullish (out title) then out(title := out qid)
          else out
      | _ \<Rightarrow> out)"

text \<open>\<^verbatim>\<open>answers || {}\<close> is copied; \<open>questions\<close> is \<open>None\<close> when it is not an array.\<close>

definition normaliseAnswersByTitle :: "answers option \<Rightarrow> question list option \<Rightarrow> answers" where
  "normaliseAnswersByTitle answers questions =
     (let out = (case answers of None \<Rightarrow> Map.empty | Some a \<Rightarrow> a) in
      case questions of None \<Rightarrow> out | Some qs \<Rightarrow> foldl mirror out qs)"

subsection \<open>\<^verbatim>\<open>scoreAnswers\<close> of QuizResults.jsx\<close>

definition QuizResults_add :: "tally \<Rightarrow> jsstring \<Rightarrow> tally" where
  "QuizResults_add tallies code =
     (if code = [] then tallies
      else tallies(code \<mapsto> (case tallies code of None \<Rightarrow> 0 | Some n \<Rightarrow> n) + 1))"

text \<open>\<^verbatim>\<open>(optionMap[opt] || []).forEach((code) => add(code, 1))\<close>.\<close>

definition QuizResults_add_codes :: "option_weights \<Rightarrow> tally \<Rightarrow> jsstring \<Rightarrow> tally" where
  "QuizResults_add_codes optionMap tallies opt =
     foldl QuizResults_add tallies (case map_of optionMap opt of None \<Rightarrow> [] | Some codes \<Rightarrow> codes)"

text \<open>
  The body of the loop over the titles of the weight table. A slider answer is
  used as a property key, which converts the number to a string; that conversion
  of the runtime is the parameter \<open>numToString\<close>.
\<close>

definition QuizResults_score_title ::
  "(jsnum \<Rightarrow> jsstring) \<Rightarrow> answers \<Rightarrow> weights \<Rightarrow> tally \<Rightarrow> jsstring \<Rightarrow> tally" where
  "QuizResults_score_title numToString answersByTitle w tallies title =
     (let optionMap = (case map_of w title of None \<Rightarrow> [] | Some om \<Rightarrow> om);
          chosen = answersByTitle title
      in case chosen of
           Some (Multi opts) \<Rightarrow> foldl (QuizResults_add_codes optionMap) tallies opts
         | Some (Single s) \<Rightarrow> QuizResults_add_codes optionMap tallies s
         | Some (Slider n) \<Rightarrow> QuizResults_add_codes optionMap tallies (numToString n)
         | _ \<Rightarrow> tallies)"

text \<open>\<^verbatim>\<open>answersByTitle[title]\<close> raises a \<^verbatim>\<open>TypeError\<close> at the first title when the
  answers are \<^verbatim>\<open>null\<close> or \<^verbatim>\<open>undefined\<close>.\<close>

definition QuizResults_scoreAnswers ::
  "(jsnum \<Rightarrow> jsstring) \<Rightarrow> answers option \<Rightarrow> weights option \<Rightarrow> error + tally" where
  "QuizResults_scoreAnswers numToString answersByTitle weightsMap =
     (let w = (case weightsMap of None \<Rightarrow> [] | Some w \<Rightarrow> w) in
      if w = [] then Inr Map.empty
      else case answersByTitle of
             None \<Rightarrow> Inl TypeError
           | Some a \<Rightarrow> Inr (foldl (QuizResults_score_title numToString a w) Map.empty (map fst w)))"

subsection \<open>\<^verbatim>\<open>norm\<close> of QuizClient.jsx\<close>

text \<open>The class \<^verbatim>\<open>\s\<close> of a regular expression, which is also what \<^verbatim>\<open>trim\<close>
  removes.\<close>

definition is_ws :: "nat \<Rightarrow> bool" where
  "is_ws c = (c \<in> {0x9, 0xA, 0xB, 0xC, 0xD, 0x20, 0xA0, 0x1680, 0x2028, 0x2029, 0x202F,
                   0x205F, 0x3000, 0xFEFF} \<or> (0x2000 \<le> c \<and> c \<le> 0x200A))"

text \<open>\<^verbatim>\<open>.replace(/\s+/g, " ")\<close>: every maximal run of white space becomes one space.\<close>

function collapse_ws :: "jsstring \<Rightarrow> jsstring" where
  "collapse_ws [] = []"
| "collapse_ws (c # cs) =
     (if is_ws c then 0x20 # collapse_ws (dropWhile is_ws cs) else c # collapse_ws cs)"
  by pat_completeness auto
termination
  by (relation "measure length") (auto simp: less_Suc_eq_le length_dropWhile_le)

text \<open>\<^verbatim>\<open>.replace(/[...]/g, "'")\<close> with the class of U+2019, U+201C, U+201D, the
  double quote and the apostrophe.\<close>

definition unify_quote :: "nat \<Rightarrow> nat" where
  "unify_quote c = (if c \<in> {0x2019, 0x201C, 0x201D, 0x22, 0x27} then 0x27 else c)"

definition trim :: "jsstring \<Rightarrow> jsstring" where
  "trim s = rev (dropWhile is_ws (rev (dropWhile is_ws s)))"

text \<open>
  \<^verbatim>\<open>String.prototype.toLowerCase\<close> is the Unicode case mapping of the runtime; it
  is the parameter \<open>toLowerCase\<close> of \<open>norm\<close> and of everything that calls it.
  \<open>ascii_toLowerCase\<close> is that mapping on strings of ASCII code units.
\<close>

definition norm :: "(jsstring \<Rightarrow> jsstring) \<Rightarrow> jsstring \<Rightarrow> jsstring" where
  "norm toLowerCase s = trim (map unify_quote (collapse_ws (toLowerCase s)))"

definition ascii_toLowerCase :: "jsstring \<Rightarrow> jsstring" where
  "ascii_toLowerCase s = map (\<lambda>c. if 0x41 \<le> c \<and> c \<le> 0x5A then c + 0x20 else c) s"

text \<open>\<^verbatim>\<open>a.includes(b)\<close> on strings.\<close>

definition js_includes :: "jsstring \<Rightarrow> jsstring \<Rightarrow> bool" where
  "js_includes a b = sublist b a"

subsection \<open>\<^verbatim>\<open>Map\<close>\<close>

text \<open>
  A \<^verbatim>\<open>Map\<close> is the list of its entries in iteration order. \<^verbatim>\<open>set\<close> on a key
  that is present replaces the value and keeps the position; \<^verbatim>\<open>new Map(entries)\<close>
  sets the entries one after the other; \<^verbatim>\<open>get\<close> is \<open>map_of\<close>.
\<close>

fun Map_set :: "('k \<times> 'v) list \<Rightarrow> 'k \<Rightarrow> 'v \<Rightarrow> ('k \<times> 'v) list" where
  "Map_set [] k v = [(k, v)]"
| "Map_set ((k', v') # m) k v =
     (if k' = k then (k', v) # m else (k', v') # Map_set m k v)"

definition new_Map :: "('k \<times> 'v) list \<Rightarrow> ('k \<times> 'v) list" where
  "new_Map entries = foldl (\<lambda>m (k, v). Map_set m k v) [] entries"

subsection \<open>\<^verbatim>\<open>buildOptionLabelIndex\<close> of QuizClient.jsx\<close>

text \<open>\<^verbatim>\<open>x ?? y ?? ... ?? d\<close>.\<close>

fun coalesce :: "'a option list \<Rightarrow> 'a \<Rightarrow> 'a" where
  "coalesce [] d = d"
| "coalesce (None # xs) d = coalesce xs d"
| "coalesce (Some x # xs) d = x"

definition option_id :: "qoption \<Rightarrow> jsstring" where
  "option_id a = coalesce [opt_id a, opt_value a, opt_label a] []"

definition option_label :: "qoption \<Rightarrow> jsstring" where
  "option_label a = coalesce [opt_label a, opt_name a, opt_value a, opt_id a] (option_id a)"

definition option_index :: "question \<Rightarrow> (jsstring \<rightharpoonup> jsstring)" where
  "option_index q =
     foldl (\<lambda>m a. if option_id a \<noteq> [] then m(option_id a \<mapsto> option_label a) else m)
       Map.empty (q_answers q)"

definition buildOptionLabelIndex :: "question list \<Rightarrow> (jsstring \<rightharpoonup> (jsstring \<rightharpoonup> jsstring))" where
  "buildOptionLabelIndex questions =
     foldl (\<lambda>index q.
              case q_title q of
                Some t \<Rightarrow> if t \<noteq> [] then index(t \<mapsto> option_index q) else index
              | None \<Rightarrow> index)
       Map.empty questions"

subsection \<open>\<^verbatim>\<open>scoreAnswers\<close> of QuizClient.jsx\<close>

definition QuizClient_add :: "tally \<Rightarrow> jsstring \<Rightarrow> tally" where
  "QuizClient_add tallies code =
     (if code = [] then tallies
      else tallies(code \<mapsto> (case tallies code of None \<Rightarrow> 0 | Some n \<Rightarrow> n) + 1))"

text \<open>The \<^verbatim>\<open>Map\<close> from normalised title to \<^verbatim>\<open>{ title, map }\<close>.\<close>

type_synonym weights_norm = "(jsstring \<times> (jsstring \<times> option_weights)) list"

definition weightsNorm_of :: "(jsstring \<Rightarrow> jsstring) \<Rightarrow> weights \<Rightarrow> weights_norm" where
  "weightsNorm_of toLowerCase w = new_Map (map (\<lambda>(t, m). (norm toLowerCase t, (t, m))) w)"

definition findWeightsForTitle ::
  "(jsstring \<Rightarrow> jsstring) \<Rightarrow> weights_norm \<Rightarrow> jsstring \<Rightarrow> (jsstring \<times> option_weights) option" where
  "findWeightsForTitle toLowerCase weightsNorm qTitle =
     (let n = norm toLowerCase qTitle in
      case map_of weightsNorm n of
        Some exact \<Rightarrow> Some exact
      | None \<Rightarrow>
          (case find (\<lambda>(kn, obj). js_includes n kn \<or> js_includes kn n) weightsNorm of
             Some (kn, obj) \<Rightarrow> Some obj
           | None \<Rightarrow> None))"

text \<open>
  \<^verbatim>\<open>/^[0-9]+$/.test(s)\<close>, and \<^verbatim>\<open>Number(s)\<close> for such a string: its decimal value,
  or \<^verbatim>\<open>Infinity\<close> beyond the range of a double (from \<open>2^1024 - 2^970\<close> on with
  rounding to nearest).
\<close>

definition is_digits :: "jsstring \<Rightarrow> bool" where
  "is_digits s = (s \<noteq> [] \<and> list_all (\<lambda>c. 0x30 \<le> c \<and> c \<le> 0x39) s)"

definition digits_value :: "jsstring \<Rightarrow> nat" where
  "digits_value s = foldl (\<lambda>v c. 10 * v + (c - 0x30)) 0 s"

definition Number_of_digits :: "jsstring \<Rightarrow> jsnum" where
  "Number_of_digits s =
     (let v = digits_value s in if v < 2 ^ 1024 - 2 ^ 970 then Finite (real v) else PosInf)"

text \<open>
  \<^verbatim>\<open>sliderBucketLabel(optionMap, value)\<close>, with \<open>n\<close> the number \<^verbatim>\<open>Number(value)\<close>:
  the call site passes a number as it is and a string of digits through
  \<open>Number_of_digits\<close>. \<open>None\<close> is \<^verbatim>\<open>null\<close>.
\<close>

definition sliderBucketLabel :: "option_weights \<Rightarrow> jsnum \<Rightarrow> jsstring option" where
  "sliderBucketLabel optionMap n =
     (let keys = map fst optionMap in
      if keys = [] then None
      else
        let low = hd keys; high = last keys in
        if \<not> isFinite n then None
        else if num_le n (Finite 2) then Some low
        else if num_ge n (Finite 4) then Some high
        else None)"

text \<open>The \<^verbatim>\<open>Map\<close> from normalised label to label, and \<^verbatim>\<open>optionMapNorm.get(norm(x)) || x\<close>.\<close>

definition optionMapNorm_of ::
  "(jsstring \<Rightarrow> jsstring) \<Rightarrow> option_weights \<Rightarrow> (jsstring \<times> jsstring) list" where
  "optionMapNorm_of toLowerCase optionMap =
     new_Map (map (\<lambda>label. (norm toLowerCase label, label)) (map fst optionMap))"

definition get_norm_or ::
  "(jsstring \<Rightarrow> jsstring) \<Rightarrow> (jsstring \<times> jsstring) list \<Rightarrow> jsstring \<Rightarrow> jsstring" where
  "get_norm_or toLowerCase optionMapNorm x =
     (case map_of optionMapNorm (norm toLowerCase x) of
        Some l \<Rightarrow> if l \<noteq> [] then l else x
      | None \<Rightarrow> x)"

definition idToLabel ::
  "(jsstring \<Rightarrow> jsstring) \<Rightarrow> (jsstring \<rightharpoonup> (jsstring \<rightharpoonup> jsstring)) \<Rightarrow> jsstring \<Rightarrow>
   option_weights \<Rightarrow> jsstring \<Rightarrow> jsstring" where
  "idToLabel toLowerCase labelIndex qTitle optionMap v =
     (if map_of optionMap v \<noteq> None then v
      else
        let lbl = (case labelIndex qTitle of None \<Rightarrow> None | Some m \<Rightarrow> m v) in
        case lbl of
          Some l \<Rightarrow>
            if l \<noteq> [] \<and> map_of optionMap l \<noteq> None then l
            else get_norm_or toLowerCase (optionMapNorm_of toLowerCase optionMap) v
        | None \<Rightarrow> get_norm_or toLowerCase (optionMapNorm_of toLowerCase optionMap) v)"

text \<open>What one selected option of a multi-choice answer becomes before the filter:
  \<^verbatim>\<open>idToLabel\<close>, then the lookup of the normalised label.\<close>

definition resolve_option ::
  "(jsstring \<Rightarrow> jsstring) \<Rightarrow> (jsstring \<rightharpoonup> (jsstring \<rightharpoonup> jsstring)) \<Rightarrow> jsstring \<Rightarrow>
   option_weights \<Rightarrow> jsstring \<Rightarrow> jsstring" where
  "resolve_option toLowerCase labelIndex qTitle optionMap v =
     get_norm_or toLowerCase (optionMapNorm_of toLowerCase optionMap)
       (idToLabel toLowerCase labelIndex qTitle optionMap v)"

text \<open>The block that normalises the chosen value to labels present in \<^verbatim>\<open>optionMap\<close>.\<close>

definition QuizClient_labels ::
  "(jsstring \<Rightarrow> jsstring) \<Rightarrow> (jsstring \<rightharpoonup> (jsstring \<rightharpoonup> jsstring)) \<Rightarrow> jsstring \<Rightarrow>
   option_weights \<Rightarrow> answer \<Rightarrow> jsstring list" where
  "QuizClient_labels toLowerCase labelIndex qTitle optionMap chosen =
     (let has = (\<lambda>lab. map_of optionMap lab \<noteq> None);
          bucket = (\<lambda>n. case sliderBucketLabel optionMap n of
                           Some lab \<Rightarrow> if lab \<noteq> [] \<and> has lab then [lab] else []
                         | None \<Rightarrow> [])
      in case chosen of
           Multi xs \<Rightarrow> filter has (map (resolve_option toLowerCase labelIndex qTitle optionMap) xs)
         | Slider n \<Rightarrow> bucket n
         | Single s \<Rightarrow>
             if is_digits s then bucket (Number_of_digits s)
             else
               let lab = resolve_option toLowerCase labelIndex qTitle optionMap s in
               if has lab then [lab] else []
         | ANull \<Rightarrow> [])"

text \<open>\<^verbatim>\<open>(optionMap[lab] || []).forEach((code) => add(code, 1))\<close>.\<close>

definition QuizClient_add_codes :: "option_weights \<Rightarrow> tally \<Rightarrow> jsstring \<Rightarrow> tally" where
  "QuizClient_add_codes optionMap tallies lab =
     foldl QuizClient_add tallies (case map_of optionMap lab of None \<Rightarrow> [] | Some codes \<Rightarrow> codes)"

text \<open>\<^verbatim>\<open>answers[q.id]\<close> reads the key \<^verbatim>\<open>"undefined"\<close> when the question has no id.\<close>

definition prop_key :: "jsstring option \<Rightarrow> jsstring" where
  "prop_key k = (case k of None \<Rightarrow> js ''undefined'' | Some s \<Rightarrow> s)"

text \<open>
  The body of the loop over the questions. On data of the shapes above no
  statement of the \<^verbatim>\<open>try\<close> block raises, so the \<^verbatim>\<open>catch\<close> has no branch here.
\<close>

definition QuizClient_score_question ::
  "(jsstring \<Rightarrow> jsstring) \<Rightarrow> answers \<Rightarrow> (jsstring \<rightharpoonup> (jsstring \<rightharpoonup> jsstring)) \<Rightarrow>
   weights_norm \<Rightarrow> tally \<Rightarrow> question \<Rightarrow> tally" where
  "QuizClient_score_question toLowerCase answers labelIndex weightsNorm tallies q =
     (case q_title q of
        None \<Rightarrow> tallies
      | Some qTitle \<Rightarrow>
          (if qTitle = [] then tallies
           else
             (case findWeightsForTitle toLowerCase weightsNorm qTitle of
                None \<Rightarrow> tallies
              | Some found \<Rightarrow>
                  (let optionMap = snd found;
                       chosen0 = answers qTitle;
                       chosen = (if nullish chosen0 then answers (prop_key (q_id q)) else chosen0)
                   in (case chosen of
                         None \<Rightarrow> tallies
                       | Some ANull \<Rightarrow> tallies
                       | Some c \<Rightarrow>
                           foldl (QuizClient_add_codes optionMap) tallies
                             (QuizClient_labels toLowerCase labelIndex qTitle optionMap c))))))"

definition QuizClient_scoreAnswers ::
  "(jsstring \<Rightarrow> jsstring) \<Rightarrow> answers option \<Rightarrow> weights option \<Rightarrow> question list option \<Rightarrow> tally" where
  "QuizClient_scoreAnswers toLowerCase answers weightsMap questions =
     (case (answers, weightsMap) of
        (Some a, Some w) \<Rightarrow>
          let qs = (case questions of None \<Rightarrow> [] | Some qs \<Rightarrow> qs);
              labelIndex = buildOptionLabelIndex qs;
              weightsNorm = weightsNorm_of toLowerCase w
          in foldl (QuizClient_score_question toLowerCase a labelIndex weightsNorm) Map.empty qs
      | _ \<Rightarrow> Map.empty)"

subsection \<open>Vocabulary of the statements\<close>

text \<open>The count a tally holds for a code, 0 for a missing key and for missing
  tallies.\<close>

definition tally_count :: "tally option \<Rightarrow> jsstring \<Rightarrow> nat" where
  "tally_count tallies code =
     (case tallies of None \<Rightarrow> 0 | Some t \<Rightarrow> (case t code of None \<Rightarrow> 0 | Some n \<Rightarrow> n))"

text \<open>The codes that a label is mapped to, none for a label that is not a key.\<close>

definition codes_of :: "option_weights \<Rightarrow> jsstring \<Rightarrow> jsstring list" where
  "codes_of optionMap lab = (case map_of optionMap lab of None \<Rightarrow> [] | Some codes \<Rightarrow> codes)"

text \<open>The first product code that a label is mapped to, if there is one.\<close>

definition first_code :: "option_weights \<Rightarrow> jsstring \<Rightarrow> jsstring option" where
  "first_code priMap opt = (case codes_of priMap opt of [] \<Rightarrow> None | c # _ \<Rightarrow> Some c)"


section \<open>Properties\<close>

subsection \<open>The scan over the product order\<close>

lemma QuizClient_tally_value_count:
  "QuizClient_tally_value tallies code = Finite (real (tally_count tallies code))"
  by (simp add: QuizClient_tally_value_def tally_count_def split: option.splits)

lemma QuizResults_tally_value_count:
  "QuizResults_tally_value t code = Finite (real (tally_count (Some t) code))"
  by (simp add: QuizResults_tally_value_def tally_count_def split: option.splits)

lemma QuizResults_scan_eq: "QuizResults_scan t = QuizClient_scan (Some t)"
  by (simp add: fun_eq_iff QuizResults_scan_def QuizClient_scan_def
      QuizClient_tally_value_count QuizResults_tally_value_count)

lemma QuizClient_scan_fold:
  "xs \<noteq> [] \<Longrightarrow>
   foldl (QuizClient_scan tallies) (NegInf, []) xs =
     (Finite (real (Max (tally_count tallies ` set xs))),
      filter (\<lambda>c. tally_count tallies c = Max (tally_count tallies ` set xs)) xs)"
proof (induction xs rule: rev_nonempty_induct)
  case (single x)
  show ?case
    by (simp add: QuizClient_scan_def QuizClient_tally_value_count)
next
  case (snoc x xs)
  let ?f = "tally_count tallies"
  let ?M = "Max (?f ` set xs)"
  let ?M' = "Max (?f ` set (xs @ [x]))"
  have fin: "finite (?f ` set xs)" and ne: "?f ` set xs \<noteq> {}"
    using snoc.hyps by simp_all
  have M': "?M' = max (?f x) ?M"
    using fin ne by simp
  have le: "\<forall>c\<in>set xs. ?f c \<le> ?M"
    using fin by simp
  have step: "foldl (QuizClient_scan tallies) (NegInf, []) (xs @ [x]) =
      QuizClient_scan tallies (Finite (real ?M), filter (\<lambda>c. ?f c = ?M) xs) x"
    by (simp add: snoc.IH)
  consider (gt) "?f x > ?M" | (eq) "?f x = ?M" | (lt) "?f x < ?M"
    by linarith
  then show ?case
  proof cases
    case gt
    have "\<forall>c\<in>set xs. ?f c \<noteq> ?f x"
      using le gt by (metis not_le)
    then have none: "filter (\<lambda>c. ?f c = ?f x) xs = []"
      by (simp add: filter_empty_conv)
    have m: "?M' = ?f x" using gt M' by simp
    show ?thesis unfolding step m
      using gt none by (simp add: QuizClient_scan_def QuizClient_tally_value_count)
  next
    case eq
    have m: "?M' = ?M" using eq M' by simp
    show ?thesis unfolding step m
      using eq by (simp add: QuizClient_scan_def QuizClient_tally_value_count)
  next
    case lt
    have m: "?M' = ?M" using lt M' by simp
    show ?thesis unfolding step m
      using lt by (simp add: QuizClient_scan_def QuizClient_tally_value_count)
  qed
qed

lemma QuizClient_leaders_filter:
  "order \<noteq> [] \<Longrightarrow>
   QuizClient_leaders order tallies =
     filter (\<lambda>c. tally_count tallies c = Max (tally_count tallies ` set order)) order"
  by (simp add: QuizClient_leaders_def QuizClient_scan_fold)

lemma QuizResults_leaders_eq: "QuizResults_leaders order t = QuizClient_leaders order (Some t)"
  by (simp add: QuizResults_leaders_def QuizClient_leaders_def QuizResults_scan_eq)

lemma QuizClient_leaders_subset: "order \<noteq> [] \<Longrightarrow> set (QuizClient_leaders order tallies) \<subseteq> set order"
  by (auto simp: QuizClient_leaders_filter)

lemma QuizClient_leaders_nonempty:
  assumes "order \<noteq> []"
  shows "QuizClient_leaders order tallies \<noteq> []"
proof -
  have "Max (tally_count tallies ` set order) \<in> tally_count tallies ` set order"
    using assms by (intro Max_in) simp_all
  then obtain c where "c \<in> set order" "tally_count tallies c = Max (tally_count tallies ` set order)"
    by auto
  then show ?thesis
    using assms by (auto simp: QuizClient_leaders_filter filter_empty_conv)
qed

subsection \<open>The priorities loop\<close>

lemma QuizClient_priority_Some:
  "QuizClient_priority pm leaders opts = Some m \<Longrightarrow> m \<in> set leaders \<and> m \<noteq> []"
  by (induction opts) (auto simp: Let_def split: jsresult.splits if_splits)

lemma QuizResults_priority_eq:
  "QuizResults_priority pm leaders opts = QuizClient_priority pm leaders opts"
  by (induction opts) (auto simp: Let_def split: jsresult.splits)

subsection \<open>The final sort\<close>

lemma indexOf_nonneg: "x \<in> set xs \<Longrightarrow> 0 \<le> indexOf xs x"
  by (induction xs) (auto simp: Let_def)

lemma indexOf_filter_first:
  "filter P xs = x # rest \<Longrightarrow> y \<in> set rest \<Longrightarrow> indexOf xs x \<le> indexOf xs y"
proof (induction xs)
  case Nil
  then show ?case by simp
next
  case (Cons z zs)
  show ?case
  proof (cases "P z")
    case True
    with Cons.prems have "x = z" and "y \<in> set zs" 
      by (auto dest: arg_cong[where f=set])
    then show ?thesis
      using indexOf_nonneg[of y zs] by (simp add: Let_def)
  next
    case False
    with Cons.prems have f: "filter P zs = x # rest" by simp
    then have "x \<in> set (filter P zs)" and "y \<in> set (filter P zs)"
      using Cons.prems(2) by simp_all
    then have px: "P x" "x \<in> set zs" and py: "P y" "y \<in> set zs" by simp_all
    then have "x \<noteq> z" "y \<noteq> z" using False by auto
    moreover have "indexOf zs x \<le> indexOf zs y" using Cons.IH f Cons.prems(2) by simp
    ultimately show ?thesis
      using indexOf_nonneg[OF px(2)] indexOf_nonneg[OF py(2)] by (simp add: Let_def)
  qed
qed

lemma sort_key_first:
  assumes "\<forall>y\<in>set xs. f x \<le> f y"
  shows "sort_key f (x # xs) = x # sort_key f xs"
proof -
  have "\<forall>y\<in>set (sort_key f xs). f x \<le> f y" using assms by simp
  then show ?thesis by (simp add: insort_is_Cons)
qed

lemma first_elem_sorted_filter:
  "first_elem (sort_key (indexOf xs) (filter P xs)) = first_elem (filter P xs)"
proof (cases "filter P xs")
  case Nil
  then show ?thesis by simp
next
  case (Cons x rest)
  then have "\<forall>y\<in>set rest. indexOf xs x \<le> indexOf xs y"
    using indexOf_filter_first by metis
  then have "sort_key (indexOf xs) (x # rest) = x # sort_key (indexOf xs) rest"
    by (rule sort_key_first)
  then show ?thesis
    unfolding Cons by simp
qed

subsection \<open>What \<^verbatim>\<open>pickWinner\<close> returns\<close>

lemma first_elem_hd: "xs \<noteq> [] \<Longrightarrow> first_elem xs = Str (hd xs)"
  by (cases xs) simp_all

lemma QuizClient_pickWinner_on_cases:
  assumes ne: "order \<noteq> []" and codes: "[] \<notin> set order"
  shows "QuizClient_pickWinner_on order tallies answers weightsMap =
           Str (hd (QuizClient_leaders order tallies)) \<or>
         (\<exists>m \<in> set (QuizClient_leaders order tallies).
            1 < length (QuizClient_leaders order tallies) \<and>
            QuizClient_pickWinner_on order tallies answers weightsMap = Str m)"
proof -
  let ?L = "QuizClient_leaders order tallies"
  have L: "?L \<noteq> []" using ne by (rule QuizClient_leaders_nonempty)
  have sub: "set ?L \<subseteq> set order" using ne by (rule QuizClient_leaders_subset)
  have hdL: "hd ?L \<in> set order" using L sub by auto
  then have hd_ne: "hd ?L \<noteq> []" using codes by auto
  have "first_elem (sort_key (indexOf order) ?L) = first_elem ?L"
    by (simp only: QuizClient_leaders_filter[OF ne] first_elem_sorted_filter)
  then have sorted: "first_elem (sort_key (indexOf order) ?L) = Str (hd ?L)"
    using L by (simp add: first_elem_hd)
  show ?thesis
  proof (cases "length ?L = 1")
    case True
    then show ?thesis
      using ne L by (simp add: QuizClient_pickWinner_on_def first_elem_hd)
  next
    case False
    then have long: "1 < length ?L" using L by (cases ?L) auto
    show ?thesis
      using ne L False long hd_ne sorted
      by (auto simp: QuizClient_pickWinner_on_def Let_def
          dest: QuizClient_priority_Some split: option.splits answer.splits)
  qed
qed


lemma QuizClient_pickWinner_on_single:
  assumes "order \<noteq> []" and "length (QuizClient_leaders order tallies) = 1"
  shows "QuizClient_pickWinner_on order tallies answers weightsMap =
           Str (hd (QuizClient_leaders order tallies))"
proof -
  have "QuizClient_leaders order tallies \<noteq> []" using assms(2) by auto
  then show ?thesis
    using assms by (simp add: QuizClient_pickWinner_on_def first_elem_hd)
qed

lemma sorted_leaders_first:
  assumes ne: "order \<noteq> []"
  shows "first_elem (sort_key (indexOf order) (QuizClient_leaders order tallies)) =
           Str (hd (QuizClient_leaders order tallies))"
proof -
  let ?L = "QuizClient_leaders order tallies"
  have L: "?L \<noteq> []" using ne by (rule QuizClient_leaders_nonempty)
  have "first_elem (sort_key (indexOf order) ?L) = first_elem ?L"
    by (simp only: QuizClient_leaders_filter[OF ne] first_elem_sorted_filter)
  then show ?thesis
    using L by (simp add: first_elem_hd)
qed

lemma hd_leaders_code:
  assumes ne: "order \<noteq> []" and codes: "[] \<notin> set order"
  shows "hd (QuizClient_leaders order tallies) \<noteq> []"
proof -
  have "hd (QuizClient_leaders order tallies) \<in> set order"
    using QuizClient_leaders_nonempty[OF ne] QuizClient_leaders_subset[OF ne] by (metis hd_in_set subsetD)
  then show ?thesis using codes by auto
qed

text \<open>Stage 2 and stage 3, when more than one code leads.\<close>

lemma QuizClient_pickWinner_on_tie:
  assumes ne: "order \<noteq> []" and codes: "[] \<notin> set order"
    and tie: "length (QuizClient_leaders order tallies) \<noteq> 1"
  shows "QuizClient_pickWinner_on order tallies answers weightsMap =
     (case (case weightsMap of None \<Rightarrow> None | Some w \<Rightarrow> map_of w QuizClient_PRIORITIES_TITLE,
            case answers of None \<Rightarrow> None | Some a \<Rightarrow> a QuizClient_PRIORITIES_TITLE) of
        (Some pm, Some (Multi opts)) \<Rightarrow>
          (case QuizClient_priority pm (QuizClient_leaders order tallies) opts of
             Some m \<Rightarrow> Str m
           | None \<Rightarrow> Str (hd (QuizClient_leaders order tallies)))
      | _ \<Rightarrow> Str (hd (QuizClient_leaders order tallies)))"
  using ne tie QuizClient_leaders_nonempty[OF ne, of tallies]
    sorted_leaders_first[OF ne, of tallies] hd_leaders_code[OF ne codes, of tallies]
  by (simp add: QuizClient_pickWinner_on_def Let_def split: option.splits answer.splits)

lemma QuizResults_pickWinner_on_single:
  assumes "length (QuizClient_leaders order (Some t)) = 1"
  shows "QuizResults_pickWinner_on order (Some t) answers weightsMap =
           Inr (Str (hd (QuizClient_leaders order (Some t))))"
proof -
  have "QuizClient_leaders order (Some t) \<noteq> []" using assms by auto
  then show ?thesis
    using assms by (simp add: QuizResults_pickWinner_on_def QuizResults_leaders_eq first_elem_hd)
qed

lemma QuizResults_pickWinner_on_tie:
  assumes ne: "order \<noteq> []"
    and tie: "length (QuizClient_leaders order (Some t)) \<noteq> 1"
  shows "QuizResults_pickWinner_on order (Some t) answers weightsMap =
     (case (case weightsMap of None \<Rightarrow> None | Some w \<Rightarrow> map_of w QuizResults_PRIORITIES_TITLE,
            case answers of None \<Rightarrow> None | Some a \<Rightarrow> a QuizResults_PRIORITIES_TITLE) of
        (Some pm, Some (Multi opts)) \<Rightarrow>
          (case QuizClient_priority pm (QuizClient_leaders order (Some t)) opts of
             Some m \<Rightarrow> Inr (Str m)
           | None \<Rightarrow> Inr (Str (hd (QuizClient_leaders order (Some t)))))
      | _ \<Rightarrow> Inr (Str (hd (QuizClient_leaders order (Some t)))))"
  using tie sorted_leaders_first[OF ne, of "Some t"]
  by (simp add: QuizResults_pickWinner_on_def QuizResults_leaders_eq QuizResults_priority_eq
      Let_def split: option.splits answer.splits)

lemma PRIORITIES_TITLE_eq: "QuizResults_PRIORITIES_TITLE = QuizClient_PRIORITIES_TITLE"
  by (simp add: QuizResults_PRIORITIES_TITLE_def QuizClient_PRIORITIES_TITLE_def)

lemma PRODUCT_ORDER_eq: "QuizResults_PRODUCT_ORDER = QuizClient_PRODUCT_ORDER"
  by (simp add: QuizResults_PRODUCT_ORDER_def QuizClient_PRODUCT_ORDER_def)

lemma PRODUCT_ORDER_nonempty: "QuizClient_PRODUCT_ORDER \<noteq> []"
  by (simp add: QuizClient_PRODUCT_ORDER_def)

lemma PRODUCT_ORDER_codes: "[] \<notin> set QuizClient_PRODUCT_ORDER"
  by (simp add: QuizClient_PRODUCT_ORDER_def js_def)

lemma PRODUCT_ORDER_hd: "hd QuizClient_PRODUCT_ORDER = js ''Eic''"
  by (simp add: QuizClient_PRODUCT_ORDER_def)

lemma QuizClient_pickWinner_on_leader:
  assumes ne: "order \<noteq> []" and codes: "[] \<notin> set order"
  shows "\<exists>m \<in> set (QuizClient_leaders order tallies).
           QuizClient_pickWinner_on order tallies answers weightsMap = Str m"
  using QuizClient_pickWinner_on_cases[OF ne codes, of tallies answers weightsMap]
    QuizClient_leaders_nonempty[OF ne, of tallies]
  by (metis hd_in_set)

lemma QuizResults_pickWinner_on_leader:
  assumes ne: "order \<noteq> []"
  shows "\<exists>m \<in> set (QuizClient_leaders order (Some t)).
           QuizResults_pickWinner_on order (Some t) answers weightsMap = Inr (Str m)"
proof (cases "length (QuizClient_leaders order (Some t)) = 1")
  case True
  then show ?thesis
    using QuizClient_leaders_nonempty[OF ne, of "Some t"]
    by (simp add: QuizResults_pickWinner_on_single)
next
  case False
  show ?thesis
    unfolding QuizResults_pickWinner_on_tie[OF ne False]
    using QuizClient_leaders_nonempty[OF ne, of "Some t"]
    by (auto split: option.splits answer.splits dest: QuizClient_priority_Some)
qed

lemma leaders_of_max:
  assumes A: "A \<in> set order" and mx: "\<forall>c\<in>set order. tally_count tallies c \<le> tally_count tallies A"
  shows "QuizClient_leaders order tallies =
           filter (\<lambda>c. tally_count tallies c = tally_count tallies A) order"
proof -
  have ne: "order \<noteq> []" using A by auto
  have "Max (tally_count tallies ` set order) = tally_count tallies A"
    using A mx by (intro Max_eqI) auto
  then show ?thesis by (simp add: QuizClient_leaders_filter[OF ne])
qed

lemma leaders_all_equal:
  assumes ne: "order \<noteq> []" and eq: "\<forall>c\<in>set order. tally_count tallies c = n"
  shows "QuizClient_leaders order tallies = order"
proof -
  have h: "hd order \<in> set order" using ne by simp
  have "QuizClient_leaders order tallies =
      filter (\<lambda>c. tally_count tallies c = tally_count tallies (hd order)) order"
    using h eq by (intro leaders_of_max) simp_all
  also have "\<dots> = order"
    using h eq by (simp add: filter_id_conv)
  finally show ?thesis .
qed

subsection \<open>A single maximum\<close>

text \<open>
  C4. When the tally of a code \<open>A\<close> of the product order is strictly greater than
  the tally of every other code of the product order, both copies of
  \<^verbatim>\<open>pickWinner\<close> return \<open>A\<close>, wherever \<open>A\<close> stands in the order and whatever
  answers and weights are passed for the tie-break (\<^verbatim>\<open>null\<close> included). Product
  codes are non-empty strings.
\<close>

theorem single_max_wins:
  assumes codes: "[] \<notin> set order" and A: "A \<in> set order"
    and strict: "\<forall>B\<in>set order. B \<noteq> A \<longrightarrow> tally_count (Some t) B < tally_count (Some t) A"
  shows "QuizClient_pickWinner_on order (Some t) answers weightsMap = Str A \<and>
         QuizResults_pickWinner_on order (Some t) answers weightsMap = Inr (Str A)"
proof -
  have ne: "order \<noteq> []" using A by auto
  have mx: "\<forall>c\<in>set order. tally_count (Some t) c \<le> tally_count (Some t) A"
    using strict by (metis le_eq_less_or_eq)
  have L: "QuizClient_leaders order (Some t) =
      filter (\<lambda>c. tally_count (Some t) c = tally_count (Some t) A) order"
    using A mx by (rule leaders_of_max)
  have only: "\<forall>m\<in>set (QuizClient_leaders order (Some t)). m = A"
    unfolding L using strict by auto
  show ?thesis
    using QuizClient_pickWinner_on_leader[OF ne codes, of "Some t" answers weightsMap]
      QuizResults_pickWinner_on_leader[OF ne, of t answers weightsMap] only
    by auto
qed

theorem single_max_wins_witness:
  "QuizClient_pickWinner (Some (map_of [(js ''Eic'', 1), (js ''Gsi'', 2)])) None None = Str (js ''Gsi'') \<and>
   QuizResults_pickWinner (Some (map_of [(js ''Eic'', 1), (js ''Gsi'', 2)])) None None = Inr (Str (js ''Gsi''))"
proof -
  have c: "[] \<notin> set QuizClient_PRODUCT_ORDER" by (rule PRODUCT_ORDER_codes)
  have a: "js ''Gsi'' \<in> set QuizClient_PRODUCT_ORDER"
    by (simp add: QuizClient_PRODUCT_ORDER_def)
  have s: "\<forall>B\<in>set QuizClient_PRODUCT_ORDER. B \<noteq> js ''Gsi'' \<longrightarrow>
      tally_count (Some (map_of [(js ''Eic'', 1), (js ''Gsi'', 2)])) B
        < tally_count (Some (map_of [(js ''Eic'', 1), (js ''Gsi'', 2)])) (js ''Gsi'')"
    by (simp add: QuizClient_PRODUCT_ORDER_def tally_count_def js_def)
  show ?thesis
    using single_max_wins[OF c a s, of None None]
    by (simp add: QuizClient_pickWinner_def QuizResults_pickWinner_def PRODUCT_ORDER_eq)
qed

subsection \<open>Scoring without answers\<close>

lemma foldl_unchanged: "(\<And>s x. f s x = s) \<Longrightarrow> foldl f s xs = s"
  by (induction xs) simp_all

lemma QuizClient_score_question_empty:
  "QuizClient_score_question lc Map.empty labelIndex weightsNorm tallies q = tallies"
  by (simp add: QuizClient_score_question_def nullish_def Let_def split: option.splits)

lemma QuizClient_scoreAnswers_empty:
  "QuizClient_scoreAnswers lc (Some Map.empty) weightsMap questions = Map.empty"
  by (simp add: QuizClient_scoreAnswers_def Let_def foldl_unchanged
      QuizClient_score_question_empty split: option.splits)

lemma mirror_empty: "mirror Map.empty q = Map.empty"
  by (simp add: mirror_def nullish_def split: option.splits)

lemma foldl_mirror_empty: "foldl mirror Map.empty qs = Map.empty"
  by (induction qs) (simp_all add: mirror_empty)

lemma normaliseAnswersByTitle_empty:
  "normaliseAnswersByTitle (Some Map.empty) questions = Map.empty"
  by (simp add: normaliseAnswersByTitle_def Let_def foldl_mirror_empty split: option.splits)

lemma QuizResults_score_title_empty:
  "QuizResults_score_title numToString Map.empty w tallies title = tallies"
  by (simp add: QuizResults_score_title_def)

lemma QuizResults_scoreAnswers_empty:
  "QuizResults_scoreAnswers numToString (Some Map.empty) weightsMap = Inr Map.empty"
  by (simp add: QuizResults_scoreAnswers_def Let_def foldl_unchanged
      QuizResults_score_title_empty split: option.splits)

lemma tally_count_empty: "tally_count (Some Map.empty) c = 0" "tally_count None c = 0"
  by (simp_all add: tally_count_def)

lemma pickWinner_on_all_zero:
  assumes ne: "order \<noteq> []" and codes: "[] \<notin> set order"
    and zero: "\<forall>c\<in>set order. tally_count tallies c = 0"
    and nopri: "answers = None \<or> weightsMap = None \<or>
                (\<exists>a. answers = Some a \<and> a QuizClient_PRIORITIES_TITLE = None)"
  shows "QuizClient_pickWinner_on order tallies answers weightsMap = Str (hd order)"
proof -
  have L: "QuizClient_leaders order tallies = order"
    using ne zero by (rule leaders_all_equal)
  show ?thesis
  proof (cases "length order = 1")
    case True
    then show ?thesis
      using QuizClient_pickWinner_on_single[OF ne, of tallies answers weightsMap] L by simp
  next
    case False
    then have tie: "length (QuizClient_leaders order tallies) \<noteq> 1" using L by simp
    show ?thesis
      unfolding QuizClient_pickWinner_on_tie[OF ne codes tie] L
      using nopri by (auto split: option.splits answer.splits)
  qed
qed

lemma QuizResults_pickWinner_on_all_zero:
  assumes ne: "order \<noteq> []"
    and zero: "\<forall>c\<in>set order. tally_count (Some t) c = 0"
    and nopri: "answers = None \<or> weightsMap = None \<or>
                (\<exists>a. answers = Some a \<and> a QuizResults_PRIORITIES_TITLE = None)"
  shows "QuizResults_pickWinner_on order (Some t) answers weightsMap = Inr (Str (hd order))"
proof -
  have L: "QuizClient_leaders order (Some t) = order"
    using ne zero by (rule leaders_all_equal)
  show ?thesis
  proof (cases "length order = 1")
    case True
    then show ?thesis
      using QuizResults_pickWinner_on_single[of order t answers weightsMap] L by simp
  next
    case False
    then have tie: "length (QuizClient_leaders order (Some t)) \<noteq> 1" using L by simp
    show ?thesis
      unfolding QuizResults_pickWinner_on_tie[OF ne tie] L
      using nopri by (auto split: option.splits answer.splits)
  qed
qed

text \<open>
  C2. With an empty answer set both copies of \<^verbatim>\<open>scoreAnswers\<close> return the empty
  tally object, for every weight table and question list; every code of the
  product order then counts 0, the leaders are the whole product order, and
  both copies of \<^verbatim>\<open>pickWinner\<close> return its first code, \<^verbatim>\<open>"Eic"\<close>.
\<close>

theorem empty_answers_first_code:
  "QuizClient_scoreAnswers lc (Some Map.empty) weightsMap questions = Map.empty \<and>
   QuizClient_leaders QuizClient_PRODUCT_ORDER (Some Map.empty) = QuizClient_PRODUCT_ORDER \<and>
   QuizClient_pickWinner (Some (QuizClient_scoreAnswers lc (Some Map.empty) weightsMap questions))
     (Some Map.empty) weightsMap = Str (js ''Eic'') \<and>
   normaliseAnswersByTitle (Some Map.empty) questions = Map.empty \<and>
   QuizResults_scoreAnswers numToString (Some (normaliseAnswersByTitle (Some Map.empty) questions))
     weightsMap = Inr Map.empty \<and>
   QuizResults_leaders QuizResults_PRODUCT_ORDER Map.empty = QuizResults_PRODUCT_ORDER \<and>
   QuizResults_pickWinner (Some Map.empty) (Some (normaliseAnswersByTitle (Some Map.empty) questions))
     weightsMap = Inr (Str (js ''Eic'')) \<and>
   hd QuizClient_PRODUCT_ORDER = js ''Eic'' \<and> hd QuizResults_PRODUCT_ORDER = js ''Eic''"
proof -
  have zero: "\<forall>c\<in>set QuizClient_PRODUCT_ORDER. tally_count (Some Map.empty) c = 0"
    by (simp add: tally_count_empty)
  have L: "QuizClient_leaders QuizClient_PRODUCT_ORDER (Some Map.empty) = QuizClient_PRODUCT_ORDER"
    using PRODUCT_ORDER_nonempty zero by (rule leaders_all_equal)
  have c: "QuizClient_pickWinner (Some Map.empty) (Some Map.empty) weightsMap = Str (js ''Eic'')"
    unfolding QuizClient_pickWinner_def
    using pickWinner_on_all_zero[OF PRODUCT_ORDER_nonempty PRODUCT_ORDER_codes zero,
        of "Some Map.empty" weightsMap]
    by (simp add: PRODUCT_ORDER_hd)
  have r: "QuizResults_pickWinner (Some Map.empty) (Some Map.empty) weightsMap = Inr (Str (js ''Eic''))"
    unfolding QuizResults_pickWinner_def PRODUCT_ORDER_eq
    using QuizResults_pickWinner_on_all_zero[OF PRODUCT_ORDER_nonempty zero,
        of "Some Map.empty" weightsMap]
    by (simp add: PRODUCT_ORDER_hd)
  show ?thesis
    using L c r
    by (simp add: QuizClient_scoreAnswers_empty normaliseAnswersByTitle_empty
        QuizResults_scoreAnswers_empty QuizResults_leaders_eq PRODUCT_ORDER_eq PRODUCT_ORDER_hd)
qed


theorem empty_answers_first_code_witness:
  "QuizClient_pickWinner
     (Some (QuizClient_scoreAnswers ascii_toLowerCase (Some Map.empty)
        (Some [(js ''Goal'', [(js ''Energy'', [js ''Rnp''])])])
        (Some [\<lparr>q_id = Some (js ''q1''), q_title = Some (js ''Goal''), q_answers = []\<rparr>])))
     (Some Map.empty) (Some [(js ''Goal'', [(js ''Energy'', [js ''Rnp''])])]) = Str (js ''Eic'')"
  using empty_answers_first_code[of ascii_toLowerCase "Some [(js ''Goal'', [(js ''Energy'', [js ''Rnp''])])]"
      "Some [\<lparr>q_id = Some (js ''q1''), q_title = Some (js ''Goal''), q_answers = []\<rparr>]" "\<lambda>n. []"]
  by blast

subsection \<open>One winner, from the product order\<close>

text \<open>
  C1, as the code has it. For every non-empty product order of non-empty codes:
  \<^verbatim>\<open>pickWinner\<close> of QuizClient.jsx returns a code of the product order for every
  tallies, answers and weights argument, each an object or \<^verbatim>\<open>null\<close>;
  \<^verbatim>\<open>pickWinner\<close> of QuizResults.jsx does so for every tallies object and every
  answers and weights argument; \<^verbatim>\<open>scoreAnswers\<close> of QuizClient.jsx returns the
  empty tally object when the answers or the weight table are \<^verbatim>\<open>null\<close>, and the
  winner is then the first code of the product order.
\<close>

theorem pickWinner_total:
  assumes ne: "order \<noteq> []" and codes: "[] \<notin> set order"
  shows "(\<exists>c\<in>set order. QuizClient_pickWinner_on order tallies answers weightsMap = Str c) \<and>
         (\<exists>c\<in>set order. QuizResults_pickWinner_on order (Some t) answers weightsMap = Inr (Str c)) \<and>
         QuizClient_scoreAnswers lc None weightsMap questions = Map.empty \<and>
         QuizClient_scoreAnswers lc answers None questions = Map.empty \<and>
         (answers = None \<or> weightsMap = None \<longrightarrow>
            QuizClient_pickWinner_on order
              (Some (QuizClient_scoreAnswers lc answers weightsMap questions)) answers weightsMap =
            Str (hd order))"
proof -
  have a: "\<exists>c\<in>set order. QuizClient_pickWinner_on order tallies answers weightsMap = Str c"
    using QuizClient_pickWinner_on_leader[OF ne codes, of tallies answers weightsMap]
      QuizClient_leaders_subset[OF ne, of tallies] by blast
  have b: "\<exists>c\<in>set order. QuizResults_pickWinner_on order (Some t) answers weightsMap = Inr (Str c)"
    using QuizResults_pickWinner_on_leader[OF ne, of t answers weightsMap]
      QuizClient_leaders_subset[OF ne, of "Some t"] by blast
  have c: "QuizClient_scoreAnswers lc None weightsMap questions = Map.empty"
    by (simp add: QuizClient_scoreAnswers_def)
  have d: "QuizClient_scoreAnswers lc answers None questions = Map.empty"
    by (simp add: QuizClient_scoreAnswers_def split: option.splits)
  have e: "QuizClient_pickWinner_on order
              (Some (QuizClient_scoreAnswers lc answers weightsMap questions)) answers weightsMap =
            Str (hd order)" if "answers = None \<or> weightsMap = None"
  proof -
    have "QuizClient_scoreAnswers lc answers weightsMap questions = Map.empty"
      using that c d by auto
    then show ?thesis
      using pickWinner_on_all_zero[OF ne codes, of "Some Map.empty" answers weightsMap] that
      by (auto simp: tally_count_empty)
  qed
  show ?thesis using a b c d e by blast
qed

theorem pickWinner_total_witness:
  "QuizClient_PRODUCT_ORDER \<noteq> [] \<and> [] \<notin> set QuizClient_PRODUCT_ORDER \<and>
   (\<exists>c\<in>set QuizClient_PRODUCT_ORDER. QuizClient_pickWinner None None None = Str c) \<and>
   (\<exists>c\<in>set QuizResults_PRODUCT_ORDER.
      QuizResults_pickWinner (Some (map_of [(js ''Rnp'', 3)])) None None = Inr (Str c)) \<and>
   QuizClient_pickWinner (Some (QuizClient_scoreAnswers ascii_toLowerCase None None None)) None None =
     Str (js ''Eic'')"
proof -
  note t = pickWinner_total[OF PRODUCT_ORDER_nonempty PRODUCT_ORDER_codes,
      of None None None "map_of [(js ''Rnp'', 3)]" ascii_toLowerCase None]
  from t have a: "\<exists>c\<in>set QuizClient_PRODUCT_ORDER.
      QuizClient_pickWinner_on QuizClient_PRODUCT_ORDER None None None = Str c"
    by blast
  from t have b: "\<exists>c\<in>set QuizClient_PRODUCT_ORDER.
      QuizResults_pickWinner_on QuizClient_PRODUCT_ORDER (Some (map_of [(js ''Rnp'', 3)])) None None =
      Inr (Str c)"
    by blast
  from t have c: "QuizClient_pickWinner_on QuizClient_PRODUCT_ORDER
      (Some (QuizClient_scoreAnswers ascii_toLowerCase None None None)) None None =
      Str (hd QuizClient_PRODUCT_ORDER)"
    by blast
  show ?thesis
    unfolding QuizClient_pickWinner_def QuizResults_pickWinner_def PRODUCT_ORDER_eq
    using a b c PRODUCT_ORDER_nonempty PRODUCT_ORDER_codes
    by (simp add: PRODUCT_ORDER_hd)
qed

text \<open>
  C1 as stated fails for the copy in QuizResults.jsx: it reads \<^verbatim>\<open>tallies[code]\<close>
  without optional chaining, so \<^verbatim>\<open>null\<close> tallies raise a \<^verbatim>\<open>TypeError\<close>. It
  also fails for a product order that holds the empty string: when that code
  leads a tie, \<^verbatim>\<open>leaders.sort(...)[0] || null\<close> of QuizClient.jsx is \<^verbatim>\<open>null\<close>.
\<close>

theorem pickWinner_null_tallies_raises:
  "QuizResults_pickWinner None None None = Inl TypeError \<and>
   QuizClient_pickWinner_on [[], js ''a''] None None None = JNull"
  by (simp add: QuizResults_pickWinner_def QuizResults_pickWinner_on_def QuizResults_PRODUCT_ORDER_def
      QuizClient_pickWinner_on_def QuizClient_leaders_def QuizClient_scan_def
      QuizClient_tally_value_def js_def)

subsection \<open>The priorities tie-break\<close>

lemma QuizClient_priority_first:
  assumes "\<forall>sel\<in>set pre. \<forall>m. first_code pm sel = Some m \<longrightarrow> m \<notin> set L"
    and "first_code pm opt = Some A" and "A \<in> set L" and "A \<noteq> []"
  shows "QuizClient_priority pm L (pre @ opt # post) = Some A"
  using assms
  by (induction pre)
    (auto simp: first_code_def codes_of_def Let_def split: list.splits option.splits)

text \<open>
  C3. Let two different codes \<open>A\<close> and \<open>B\<close> of the product order be tied at the
  maximum tally, and let the answer stored under the priorities title be a
  sequence of selected labels. The labels are tried in the order of selection;
  for each the first code that the priorities entry of the weight table maps it
  to is taken. If that code is \<open>A\<close> for some selected label, and for no label
  selected before it the first code is tied at the maximum, both copies of
  \<^verbatim>\<open>pickWinner\<close> return \<open>A\<close>, also when \<open>B\<close> stands before \<open>A\<close> in the product
  order.
\<close>

theorem priority_breaks_tie:
  assumes codes: "[] \<notin> set order"
    and A: "A \<in> set order" and B: "B \<in> set order" and AB: "A \<noteq> B"
    and tied: "tally_count (Some t) B = tally_count (Some t) A"
    and mx: "\<forall>c\<in>set order. tally_count (Some t) c \<le> tally_count (Some t) A"
    and w: "map_of w QuizClient_PRIORITIES_TITLE = Some priMap"
    and a: "a QuizClient_PRIORITIES_TITLE = Some (Multi (pre @ opt # post))"
    and earlier: "\<forall>sel\<in>set pre. \<forall>m. first_code priMap sel = Some m \<longrightarrow>
                    m \<notin> set order \<or> tally_count (Some t) m < tally_count (Some t) A"
    and hit: "first_code priMap opt = Some A"
  shows "QuizClient_pickWinner_on order (Some t) (Some a) (Some w) = Str A \<and>
         QuizResults_pickWinner_on order (Some t) (Some a) (Some w) = Inr (Str A)"
proof -
  let ?L = "QuizClient_leaders order (Some t)"
  have ne: "order \<noteq> []" using A by auto
  have L: "?L = filter (\<lambda>c. tally_count (Some t) c = tally_count (Some t) A) order"
    using A mx by (rule leaders_of_max)
  have AL: "A \<in> set ?L" and BL: "B \<in> set ?L"
    using A B tied by (simp_all add: L)
  have "card {A, B} \<le> card (set ?L)"
    using AL BL by (intro card_mono) auto
  also have "\<dots> \<le> length ?L" by (rule card_length)
  finally have tie: "length ?L \<noteq> 1" using AB by simp
  have A_ne: "A \<noteq> []" using A codes by auto
  have pre: "\<forall>sel\<in>set pre. \<forall>m. first_code priMap sel = Some m \<longrightarrow> m \<notin> set ?L"
    using earlier by (auto simp: L)
  have p: "QuizClient_priority priMap ?L (pre @ opt # post) = Some A"
    using pre hit AL A_ne by (rule QuizClient_priority_first)
  show ?thesis
    unfolding QuizClient_pickWinner_on_tie[OF ne codes tie] QuizResults_pickWinner_on_tie[OF ne tie]
      PRIORITIES_TITLE_eq
    using w a p by simp
qed

theorem priority_breaks_tie_witness:
  "QuizClient_pickWinner (Some (map_of [(js ''Eic'', 2), (js ''Rnp'', 2)]))
     (Some (map_of [(QuizClient_PRIORITIES_TITLE, Multi [js ''Focus'', js ''Sleep''])]))
     (Some [(QuizClient_PRIORITIES_TITLE,
             [(js ''Focus'', [js ''Mjb'']), (js ''Sleep'', [js ''Rnp'', js ''Eic''])])]) =
     Str (js ''Rnp'') \<and>
   QuizResults_pickWinner (Some (map_of [(js ''Eic'', 2), (js ''Rnp'', 2)]))
     (Some (map_of [(QuizClient_PRIORITIES_TITLE, Multi [js ''Focus'', js ''Sleep''])]))
     (Some [(QuizClient_PRIORITIES_TITLE,
             [(js ''Focus'', [js ''Mjb'']), (js ''Sleep'', [js ''Rnp'', js ''Eic''])])]) =
     Inr (Str (js ''Rnp''))"
proof -
  let ?T = "map_of [(js ''Eic'', 2::nat), (js ''Rnp'', 2)]"
  let ?pm = "[(js ''Focus'', [js ''Mjb'']), (js ''Sleep'', [js ''Rnp'', js ''Eic''])]"
  have A: "js ''Rnp'' \<in> set QuizClient_PRODUCT_ORDER" and B: "js ''Eic'' \<in> set QuizClient_PRODUCT_ORDER"
    by (simp_all add: QuizClient_PRODUCT_ORDER_def)
  have AB: "js ''Rnp'' \<noteq> js ''Eic''" by (simp add: js_def)
  have tied: "tally_count (Some ?T) (js ''Eic'') = tally_count (Some ?T) (js ''Rnp'')"
    by (simp add: tally_count_def js_def)
  have mx: "\<forall>c\<in>set QuizClient_PRODUCT_ORDER. tally_count (Some ?T) c \<le> tally_count (Some ?T) (js ''Rnp'')"
    by (simp add: QuizClient_PRODUCT_ORDER_def tally_count_def js_def)
  have w: "map_of [(QuizClient_PRIORITIES_TITLE, ?pm)] QuizClient_PRIORITIES_TITLE = Some ?pm"
    by simp
  have a: "map_of [(QuizClient_PRIORITIES_TITLE, Multi [js ''Focus'', js ''Sleep''])]
             QuizClient_PRIORITIES_TITLE = Some (Multi ([js ''Focus''] @ js ''Sleep'' # []))"
    by simp
  have earlier: "\<forall>sel\<in>set [js ''Focus'']. \<forall>m. first_code ?pm sel = Some m \<longrightarrow>
      m \<notin> set QuizClient_PRODUCT_ORDER \<or> tally_count (Some ?T) m < tally_count (Some ?T) (js ''Rnp'')"
    by (simp add: first_code_def codes_of_def tally_count_def js_def)
  have hit: "first_code ?pm (js ''Sleep'') = Some (js ''Rnp'')"
    by (simp add: first_code_def codes_of_def js_def)
  show ?thesis
    unfolding QuizClient_pickWinner_def QuizResults_pickWinner_def PRODUCT_ORDER_eq
    using priority_breaks_tie[where a = "map_of [(QuizClient_PRIORITIES_TITLE, Multi [js ''Focus'', js ''Sleep''])]"
        and pre = "[js ''Focus'']" and opt = "js ''Sleep''" and post = "[]",
        OF PRODUCT_ORDER_codes A B AB tied mx w a earlier hit]
    by simp
qed

subsection \<open>The two copies of \<^verbatim>\<open>pickWinner\<close>\<close>

text \<open>
  C10. The winner selection exists twice. For every tally object (counts are
  natural numbers), every answers object or \<^verbatim>\<open>null\<close> and every weight table or
  \<^verbatim>\<open>null\<close>, \<^verbatim>\<open>pickWinner\<close> of QuizResults.jsx returns, without raising, exactly
  what \<^verbatim>\<open>pickWinner\<close> of QuizClient.jsx returns.
\<close>

theorem pickWinner_equivalent:
  "QuizResults_pickWinner (Some t) answers weightsMap =
     Inr (QuizClient_pickWinner (Some t) answers weightsMap)"
proof (cases "length (QuizClient_leaders QuizClient_PRODUCT_ORDER (Some t)) = 1")
  case True
  then show ?thesis
    by (simp add: QuizResults_pickWinner_def QuizClient_pickWinner_def PRODUCT_ORDER_eq
        QuizResults_pickWinner_on_single QuizClient_pickWinner_on_single PRODUCT_ORDER_nonempty)
next
  case False
  show ?thesis
    unfolding QuizResults_pickWinner_def QuizClient_pickWinner_def PRODUCT_ORDER_eq
      QuizResults_pickWinner_on_tie[OF PRODUCT_ORDER_nonempty False]
      QuizClient_pickWinner_on_tie[OF PRODUCT_ORDER_nonempty PRODUCT_ORDER_codes False]
      PRIORITIES_TITLE_eq
    by (simp split: option.splits answer.splits)
qed

theorem pickWinner_equivalent_witness:
  "QuizResults_pickWinner (Some (map_of [(js ''Rnp'', 2), (js ''Mjb'', 2)]))
       (Some (map_of [(QuizClient_PRIORITIES_TITLE, Multi [js ''Sleep''])]))
       (Some [(QuizClient_PRIORITIES_TITLE, [(js ''Sleep'', [js ''Mjb''])])]) =
     Inr (Str (js ''Mjb''))"
proof -
  have "QuizClient_pickWinner (Some (map_of [(js ''Rnp'', 2), (js ''Mjb'', 2)]))
       (Some (map_of [(QuizClient_PRIORITIES_TITLE, Multi [js ''Sleep''])]))
       (Some [(QuizClient_PRIORITIES_TITLE, [(js ''Sleep'', [js ''Mjb''])])]) =
     Str (js ''Mjb'')"
    by (simp add: QuizClient_pickWinner_def QuizClient_pickWinner_on_def QuizClient_leaders_def
        QuizClient_scan_def QuizClient_tally_value_def QuizClient_PRODUCT_ORDER_def js_def)
  then show ?thesis
    by (simp add: pickWinner_equivalent)
qed

subsection \<open>Mirroring id-keys under title-keys\<close>












subsection \<open>The title lookup\<close>

















subsection \<open>Slider answers\<close>








subsection \<open>Multi-choice answers\<close>












end
